theory Spec2Isabelle
  imports Main "HOL-Library.Word"
begin

unbundle bit_operations_syntax

section \<open>Query results format registry of rasqal (rasqal\_result\_formats.c)\<close>

text \<open>
  A shallow embedding of the registration, selection and guessing functions of
  \<^verbatim>\<open>rasqal_result_formats.c\<close>. C strings are \<open>string\<close>s, a pointer that may be
  \<^verbatim>\<open>NULL\<close> is an \<open>option\<close>, a \<^verbatim>\<open>NULL\<close>-terminated array of strings is a list, and
  every dereference of a pointer the code does not test is a branch that yields an
  \<open>error\<close>. The C \<^verbatim>\<open>int\<close> scores are integers; the one addition (line 649) and the
  one subtraction (line 529) of two of them wrap around at 32 bits, written out as
  \<open>c_int\<close>.
\<close>

subsection \<open>Data model\<close>

type_synonym byte = "8 word"

text \<open>
  Modelled from the spec: the struct declarations \<^verbatim>\<open>raptor_type_q\<close>,
  \<^verbatim>\<open>raptor_syntax_description\<close> and \<^verbatim>\<open>rasqal_query_results_format_factory\<close> live in
  headers that are not among the source files. The records below carry exactly the
  fields that the functions of \<^verbatim>\<open>rasqal_result_formats.c\<close> read or write, typed as
  section 3 of the specification describes them (a MIME type with a quality, names,
  label, URI strings, flags; behaviours that may be absent).

  An array of \<^verbatim>\<open>raptor_type_q\<close> ends with an entry whose \<^verbatim>\<open>mime_type\<close> is \<^verbatim>\<open>NULL\<close>.
  \<open>entries\<close> holds the entries before that one, \<open>terminator_q\<close> the \<^verbatim>\<open>q\<close> field of
  the terminating entry itself (the static tables write 0 there).
\<close>

record raptor_type_q =
  mime_type :: string
  q :: nat

record mime_types_array =
  entries :: "raptor_type_q list"
  terminator_q :: nat

record raptor_syntax_description =
  names :: "string list option"
  label :: "string option"
  mime_types :: "mime_types_array option"
  uri_strings :: "string list option"
  flags :: int

text \<open>
  \<^verbatim>\<open>recognise_syntax(factory, buffer, len, identifier, suffix, mime_type)\<close>: the
  factory argument is the record the function is a field of and is left out.
\<close>

type_synonym recognise_fn =
  "byte list option \<Rightarrow> nat \<Rightarrow> string option \<Rightarrow> string option \<Rightarrow> string option \<Rightarrow> int"

text \<open>
  \<^verbatim>\<open>get_rowsource\<close> and \<^verbatim>\<open>write\<close> are function pointers that the functions modelled
  here only test against \<^verbatim>\<open>NULL\<close>: \<open>True\<close> means the behaviour is supplied.
\<close>

record rasqal_query_results_format_factory =
  desc :: raptor_syntax_description
  get_rowsource :: bool
  write_fn :: bool
  recognise_syntax :: "recognise_fn option"

text \<open>
  Modelled from the spec: the two flag macros are defined in \<^verbatim>\<open>rasqal.h\<close>, which is
  not among the source files; the specification names them as the two members of the
  flags bitset. They are the two lowest bits.
\<close>

definition RASQAL_QUERY_RESULTS_FORMAT_FLAG_READER :: int where
  "RASQAL_QUERY_RESULTS_FORMAT_FLAG_READER = 1"

definition RASQAL_QUERY_RESULTS_FORMAT_FLAG_WRITER :: int where
  "RASQAL_QUERY_RESULTS_FORMAT_FLAG_WRITER = 2"

datatype error =
  Null_names
  | Null_mime_types
  | Scores_out_of_bounds
  | Buffer_out_of_bounds

subsection \<open>Selection: \<^verbatim>\<open>rasqal_get_query_results_formatter_factory\<close>\<close>

text \<open>
  The flags of a candidate, as lines 189 and 196 to 199 compute them from the
  behaviours the factory supplies.
\<close>

definition factory_flags :: "rasqal_query_results_format_factory \<Rightarrow> int" where
  "factory_flags f =
     (let ff = 0;
          ff = (if get_rowsource f then ff OR RASQAL_QUERY_RESULTS_FORMAT_FLAG_READER else ff);
          ff = (if write_fn f then ff OR RASQAL_QUERY_RESULTS_FORMAT_FLAG_WRITER else ff)
      in ff)"

text \<open>The loop of lines 213 to 216 over \<^verbatim>\<open>desc.names\<close>: \<open>True\<close> is its \<^verbatim>\<open>return factory\<close>.\<close>

fun names_scan :: "string \<Rightarrow> string list \<Rightarrow> bool" where
  "names_scan name [] = False"
| "names_scan name (fname # rest) = (if fname = name then True else names_scan name rest)"

text \<open>
  The loop of lines 224 to 229 (and 628 to 633) over \<^verbatim>\<open>desc.uri_strings\<close>: \<open>True\<close>
  when it leaves \<^verbatim>\<open>factory_uri_string\<close> non-\<^verbatim>\<open>NULL\<close>.
\<close>

fun uri_strings_scan :: "string \<Rightarrow> string list \<Rightarrow> bool" where
  "uri_strings_scan uri_string [] = False"
| "uri_strings_scan uri_string (factory_uri_string # rest) =
     (if uri_string = factory_uri_string then True else uri_strings_scan uri_string rest)"

text \<open>The loop of lines 239 to 242 over \<^verbatim>\<open>desc.mime_types\<close>; the quality is not read.\<close>

fun mime_types_scan :: "string \<Rightarrow> raptor_type_q list \<Rightarrow> bool" where
  "mime_types_scan mime [] = False"
| "mime_types_scan mime (t # rest) =
     (if mime_type t = mime then True else mime_types_scan mime rest)"

definition uri_matches :: "string option \<Rightarrow> rasqal_query_results_format_factory \<Rightarrow> bool" where
  "uri_matches uri f =
     (case uri of
        None \<Rightarrow> False
      | Some uri_string \<Rightarrow>
          (case uri_strings (desc f) of
             None \<Rightarrow> False
           | Some us \<Rightarrow> uri_strings_scan uri_string us))"

text \<open>
  One pass of the loop body (lines 189 to 243) for the candidate \<open>f\<close>: \<open>Inr True\<close>
  when the body leaves the loop with \<open>f\<close> as the result (\<^verbatim>\<open>break\<close> or
  \<^verbatim>\<open>return factory\<close>), \<open>Inr False\<close> when it goes on to the next candidate. The
  name loop reads \<^verbatim>\<open>desc.names\<close> and the MIME loop reads \<^verbatim>\<open>desc.mime_types\<close> without a
  test of the pointer; the URI loop is guarded by \<^verbatim>\<open>factory->desc.uri_strings\<close>.
\<close>

definition resolve_candidate ::
  "rasqal_query_results_format_factory \<Rightarrow> string option \<Rightarrow> string option \<Rightarrow> string option \<Rightarrow> int
     \<Rightarrow> error + bool" where
  "resolve_candidate f name uri mime rflags =
     (if rflags \<noteq> 0 \<and> factory_flags f \<noteq> rflags then Inr False
      else if name = None \<and> uri = None then Inr True
      else
        (case (case name of
                 None \<Rightarrow> Inr False
               | Some n \<Rightarrow>
                   (case names (desc f) of
                      None \<Rightarrow> Inl Null_names
                    | Some ns \<Rightarrow> Inr (names_scan n ns))) of
           Inl e \<Rightarrow> Inl e
         | Inr True \<Rightarrow> Inr True
         | Inr False \<Rightarrow>
             if uri_matches uri f then Inr True
             else
               (case mime of
                  None \<Rightarrow> Inr False
                | Some m \<Rightarrow>
                    (case mime_types (desc f) of
                       None \<Rightarrow> Inl Null_mime_types
                     | Some tab \<Rightarrow> Inr (mime_types_scan m (entries tab))))))"

text \<open>
  The scan over the sequence in registration order; \<open>Inr None\<close> is the \<^verbatim>\<open>NULL\<close>
  returned when \<^verbatim>\<open>raptor_sequence_get_at\<close> runs off the end.
\<close>

fun rasqal_get_query_results_formatter_factory ::
  "rasqal_query_results_format_factory list \<Rightarrow> string option \<Rightarrow> string option \<Rightarrow> string option
     \<Rightarrow> int \<Rightarrow> error + rasqal_query_results_format_factory option" where
  "rasqal_get_query_results_formatter_factory [] name uri mime rflags = Inr None"
| "rasqal_get_query_results_formatter_factory (f # fs) name uri mime rflags =
     (case resolve_candidate f name uri mime rflags of
        Inl e \<Rightarrow> Inl e
      | Inr True \<Rightarrow> Inr (Some f)
      | Inr False \<Rightarrow> rasqal_get_query_results_formatter_factory fs name uri mime rflags)"

subsection \<open>Registration: \<^verbatim>\<open>rasqal_world_register_query_results_format_factory\<close>\<close>

text \<open>
  The world's \<^verbatim>\<open>query_results_formats\<close> is a \<^verbatim>\<open>raptor_sequence\<close> of pointers to
  factories. Registration allocates a factory, pushes the pointer and frees the
  factory on one of its paths, so the pointers are kept apart from the objects: the
  sequence is a list of addresses and \<open>heap\<close> maps each allocated address to the
  factory stored there (\<open>None\<close>: not allocated, or freed).
\<close>

type_synonym addr = nat

record rasqal_world =
  query_results_formats :: "addr list"
  heap :: "addr \<Rightarrow> rasqal_query_results_format_factory option"

text \<open>What \<^verbatim>\<open>RASQAL_CALLOC\<close> hands out: every pointer \<^verbatim>\<open>NULL\<close>, every integer 0.\<close>

definition calloc_factory :: rasqal_query_results_format_factory where
  "calloc_factory =
     \<lparr>desc = \<lparr>names = None, label = None, mime_types = None, uri_strings = None, flags = 0\<rparr>,
      get_rowsource = False, write_fn = False, recognise_syntax = None\<rparr>"

definition rasqal_free_query_results_format_factory :: "addr \<Rightarrow> rasqal_world \<Rightarrow> rasqal_world" where
  "rasqal_free_query_results_format_factory factory world =
     world\<lparr>heap := (heap world)(factory := None)\<rparr>"

definition raptor_sequence_get_at :: "rasqal_world \<Rightarrow> nat \<Rightarrow> addr option" where
  "raptor_sequence_get_at world i =
     (if i < length (query_results_formats world) then Some (query_results_formats world ! i)
      else None)"

text \<open>
  A registration function receives the new factory and returns its status with the
  factory as it left it.
\<close>

type_synonym register_fn =
  "rasqal_query_results_format_factory \<Rightarrow> int \<times> rasqal_query_results_format_factory"

text \<open>
  Lines 62 to 132. \<open>calloc_result\<close> is the address \<^verbatim>\<open>RASQAL_CALLOC\<close> returns
  (\<open>None\<close> for \<^verbatim>\<open>NULL\<close>) and \<open>push_fails\<close> says whether \<^verbatim>\<open>raptor_sequence_push\<close>
  fails, in which case the sequence has freed the factory (line 74). The result is the
  returned pointer and the world after the call. The \<^verbatim>\<open>RASQAL_DEBUG\<close> blocks only
  print.
\<close>

definition rasqal_world_register_query_results_format_factory ::
  "rasqal_world \<Rightarrow> addr option \<Rightarrow> bool \<Rightarrow> register_fn \<Rightarrow> addr option \<times> rasqal_world" where
  "rasqal_world_register_query_results_format_factory world calloc_result push_fails register_factory =
     (case calloc_result of
        None \<Rightarrow> (None, world)
      | Some factory \<Rightarrow>
          (let w1 = world\<lparr>heap := (heap world)(factory \<mapsto> calloc_factory)\<rparr> in
           if push_fails then (None, rasqal_free_query_results_format_factory factory w1)
           else
             (let w2 = w1\<lparr>query_results_formats := query_results_formats w1 @ [factory]\<rparr> in
              case register_factory calloc_factory of
                (rc, f1) \<Rightarrow>
                  (let w3 = w2\<lparr>heap := (heap w2)(factory \<mapsto> f1)\<rparr> in
                   if rc \<noteq> 0 then (None, w3)
                   else if names (desc f1) = None \<or> names (desc f1) = Some [] \<or> label (desc f1) = None
                   then (None, rasqal_free_query_results_format_factory factory w3)
                   else
                     (let fl = 0;
                          fl = (if get_rowsource f1
                                then fl OR RASQAL_QUERY_RESULTS_FORMAT_FLAG_READER else fl);
                          fl = (if write_fn f1
                                then fl OR RASQAL_QUERY_RESULTS_FORMAT_FLAG_WRITER else fl)
                      in (Some factory,
                          w3\<lparr>heap := (heap w3)(factory \<mapsto> f1\<lparr>desc := (desc f1)\<lparr>flags := fl\<rparr>\<rparr>)\<rparr>))))))"

subsection \<open>Guessing: \<^verbatim>\<open>rasqal_world_guess_query_results_format_name\<close>\<close>

text \<open>
  The character tests of \<^verbatim>\<open>ctype.h\<close> in the C locale, on the byte value of the
  character.
\<close>

definition isalpha :: "char \<Rightarrow> bool" where
  "isalpha c = (let n = (of_char c :: nat) in (65 \<le> n \<and> n \<le> 90) \<or> (97 \<le> n \<and> n \<le> 122))"

definition isdigit :: "char \<Rightarrow> bool" where
  "isdigit c = (let n = (of_char c :: nat) in 48 \<le> n \<and> n \<le> 57)"

definition isupper :: "char \<Rightarrow> bool" where
  "isupper c = (let n = (of_char c :: nat) in 65 \<le> n \<and> n \<le> 90)"

definition tolower :: "char \<Rightarrow> char" where
  "tolower c = (if isupper c then char_of ((of_char c :: nat) + 32) else c)"

text \<open>
  \<^verbatim>\<open>strrchr(s, c)\<close>: the part of \<open>s\<close> that starts at the last occurrence of \<open>c\<close>,
  \<open>None\<close> (\<^verbatim>\<open>NULL\<close>) when \<open>c\<close> does not occur.
\<close>

fun strrchr :: "string \<Rightarrow> char \<Rightarrow> string option" where
  "strrchr [] c = None"
| "strrchr (x # xs) c =
     (case strrchr xs c of
        Some p \<Rightarrow> Some p
      | None \<Rightarrow> if x = c then Some (x # xs) else None)"

text \<open>
  The copy loop of lines 584 to 596: \<open>from\<close> is what is left to read, \<open>to\<close> what has
  been written to \<^verbatim>\<open>suffix\<close>. A character that is neither a letter nor a digit frees
  the suffix and leaves the loop with \<^verbatim>\<open>suffix = NULL\<close>.
\<close>

fun suffix_copy :: "string \<Rightarrow> string \<Rightarrow> string option" where
  "suffix_copy [] to = Some to"
| "suffix_copy (c # from) to =
     (if \<not> isalpha c \<and> \<not> isdigit c then None
      else suffix_copy from (to @ [if isupper c then tolower c else c]))"

text \<open>
  Lines 573 to 598. The outer \<open>None\<close> is the \<^verbatim>\<open>return NULL\<close> of line 582, taken when
  \<^verbatim>\<open>RASQAL_MALLOC\<close> fails (\<open>malloc_ok\<close> false); \<open>Some suffix\<close> is the value of the
  variable \<^verbatim>\<open>suffix\<close> after the block.
\<close>

definition guess_suffix :: "bool \<Rightarrow> string option \<Rightarrow> string option option" where
  "guess_suffix malloc_ok identifier =
     (case identifier of
        None \<Rightarrow> Some None
      | Some ident \<Rightarrow>
          (case strrchr ident (CHR ''.'') of
             None \<Rightarrow> Some None
           | Some p \<Rightarrow>
               if \<not> malloc_ok then None
               else Some (suffix_copy (tl p) [])))"

text \<open>
  The value of a C \<^verbatim>\<open>int\<close> expression whose mathematical result is \<open>x\<close>: \<open>x\<close> itself
  when it lies between \<^verbatim>\<open>INT_MIN\<close> and \<^verbatim>\<open>INT_MAX\<close>. Outside that range the C
  standard leaves the result open; the model takes the two's complement wrap-around
  of a 32-bit \<^verbatim>\<open>int\<close>.
\<close>

definition c_int :: "int \<Rightarrow> int" where
  "c_int x = (x + 2147483648) mod 4294967296 - 2147483648"

record syntax_score =
  score :: int
  factory :: "rasqal_query_results_format_factory option"

text \<open>Line 529.\<close>

definition compare_syntax_score :: "syntax_score \<Rightarrow> syntax_score \<Rightarrow> int" where
  "compare_syntax_score a b = c_int (score b - score a)"

text \<open>
  \<^verbatim>\<open>qsort\<close> with a comparison function, as an insertion sort. The C library leaves the
  order of elements that compare equal open; this model keeps them in their order.
\<close>

fun qsort_insert :: "('a \<Rightarrow> 'a \<Rightarrow> int) \<Rightarrow> 'a \<Rightarrow> 'a list \<Rightarrow> 'a list" where
  "qsort_insert compar x [] = [x]"
| "qsort_insert compar x (y # ys) =
     (if compar x y \<le> 0 then x # y # ys else y # qsort_insert compar x ys)"

definition qsort :: "('a \<Rightarrow> 'a \<Rightarrow> int) \<Rightarrow> 'a list \<Rightarrow> 'a list" where
  "qsort compar xs = foldr (qsort_insert compar) xs []"

definition FIRSTN :: nat where
  "FIRSTN = 1024"

text \<open>
  The MIME loop of lines 609 to 614, with the read of line 617: the \<^verbatim>\<open>q\<close> of the entry
  at which the loop stops. \<^verbatim>\<open>type_q\<close> is the address of an array element and never
  \<^verbatim>\<open>NULL\<close>, so the test of line 616 always holds and line 617 reads \<^verbatim>\<open>q\<close> from the
  matching entry or, when no entry matches, from the terminating entry.
\<close>

fun type_q_scan :: "string \<Rightarrow> raptor_type_q list \<Rightarrow> nat \<Rightarrow> nat" where
  "type_q_scan mime [] tq = tq"
| "type_q_scan mime (t # rest) tq =
     (if mime = mime_type t then q t else type_q_scan mime rest tq)"

text \<open>Lines 603 to 618: the score before the recogniser is asked.\<close>

definition guess_mime_score ::
  "string option \<Rightarrow> rasqal_query_results_format_factory \<Rightarrow> int" where
  "guess_mime_score mime f =
     (case mime of
        None \<Rightarrow> - 1
      | Some m \<Rightarrow>
          (case mime_types (desc f) of
             None \<Rightarrow> - 1
           | Some tab \<Rightarrow> int (type_q_scan m (entries tab) (terminator_q tab))))"

text \<open>
  Lines 640 to 654: the call of the recogniser with the buffer cut at \<^verbatim>\<open>FIRSTN\<close>.
  The result is what the recogniser returned and the buffer after line 654. Reading
  \<^verbatim>\<open>buffer[FIRSTN]\<close> in a buffer that is not that long is the error branch.
\<close>

definition recognise_call ::
  "recognise_fn \<Rightarrow> byte list option \<Rightarrow> nat \<Rightarrow> string option \<Rightarrow> string option \<Rightarrow> string option
     \<Rightarrow> error + (int \<times> byte list option)" where
  "recognise_call rs buffer len identifier suffix mime =
     (case (case buffer of
              None \<Rightarrow> Inr (- 1, buffer)
            | Some b \<Rightarrow>
                if len \<noteq> 0 \<and> len > FIRSTN then
                  (if FIRSTN < length b then Inr (uint (b ! FIRSTN), Some (b[FIRSTN := 0]))
                   else Inl Buffer_out_of_bounds)
                else Inr (- 1, buffer)) of
        Inl e \<Rightarrow> Inl e
      | Inr (c, buffer1) \<Rightarrow>
          (let r = rs buffer1 len identifier suffix mime;
               buffer2 = (if c \<ge> 0 then map_option (\<lambda>b. b[FIRSTN := word_of_int c]) buffer1
                          else buffer1)
           in Inr (r, buffer2)))"

text \<open>
  The loop of lines 600 to 662 from index \<open>i\<close> on, over the factories that
  \<^verbatim>\<open>raptor_sequence_get_at\<close> still has to return. The result is the value of
  \<^verbatim>\<open>factory\<close> when the loop is left (\<open>Some f\<close> after a \<^verbatim>\<open>break\<close>, \<open>None\<close> at the
  end of the sequence), the index, the scores array and the buffer.
\<close>

fun guess_scan ::
  "rasqal_query_results_format_factory list \<Rightarrow> nat \<Rightarrow> string option \<Rightarrow> string option \<Rightarrow> nat
     \<Rightarrow> string option \<Rightarrow> string option \<Rightarrow> syntax_score list \<Rightarrow> byte list option
     \<Rightarrow> error + (rasqal_query_results_format_factory option \<times> nat \<times> syntax_score list \<times> byte list option)" where
  "guess_scan [] i uri mime len identifier suffix scores buffer = Inr (None, i, scores, buffer)"
| "guess_scan (f # fs) i uri mime len identifier suffix scores buffer =
     (let sc = guess_mime_score mime f in
      if sc \<ge> 10 then Inr (Some f, i, scores, buffer)
      else if uri_matches uri f then Inr (Some f, i, scores, buffer)
      else
        (case (case recognise_syntax f of
                 None \<Rightarrow> Inr (sc, buffer)
               | Some rs \<Rightarrow>
                   (case recognise_call rs buffer len identifier suffix mime of
                      Inl e \<Rightarrow> Inl e
                    | Inr (r, buffer') \<Rightarrow> Inr (c_int (sc + r), buffer'))) of
           Inl e \<Rightarrow> Inl e
         | Inr (sc', buffer') \<Rightarrow>
             if i < length scores then
               guess_scan fs (Suc i) uri mime len identifier suffix
                 (scores[i := \<lparr>score = (if sc' < 10 then sc' else 10), factory = Some f\<rparr>]) buffer'
             else Inl Scores_out_of_bounds))"

text \<open>Line 676: \<^verbatim>\<open>factory ? factory->desc.names[0] : NULL\<close>.\<close>

definition factory_name ::
  "rasqal_query_results_format_factory option \<Rightarrow> error + string option" where
  "factory_name fo =
     (case fo of
        None \<Rightarrow> Inr None
      | Some f \<Rightarrow>
          (case names (desc f) of
             None \<Rightarrow> Inl Null_names
           | Some [] \<Rightarrow> Inr None
           | Some (n # rest) \<Rightarrow> Inr (Some n)))"

text \<open>
  Lines 560 to 676. \<open>calloc_ok\<close> and \<open>malloc_ok\<close> say whether the two allocations
  succeed; \<open>fs\<close> are the factories of the world's sequence in registration order. The
  result is the returned name (\<open>None\<close> for \<^verbatim>\<open>NULL\<close>) and the caller's buffer after the
  call. The scores array has one zeroed slot per registered factory, and line 667
  reads slot 0 of it.
\<close>

definition rasqal_world_guess_query_results_format_name ::
  "bool \<Rightarrow> bool \<Rightarrow> rasqal_query_results_format_factory list \<Rightarrow> string option \<Rightarrow> string option
     \<Rightarrow> byte list option \<Rightarrow> nat \<Rightarrow> string option \<Rightarrow> error + (string option \<times> byte list option)" where
  "rasqal_world_guess_query_results_format_name calloc_ok malloc_ok fs uri mime buffer len identifier =
     (if \<not> calloc_ok then Inr (None, buffer)
      else
        (let scores = replicate (length fs) \<lparr>score = 0, factory = None\<rparr> in
         case guess_suffix malloc_ok identifier of
           None \<Rightarrow> Inr (None, buffer)
         | Some suffix \<Rightarrow>
             (case guess_scan fs 0 uri mime len identifier suffix scores buffer of
                Inl e \<Rightarrow> Inl e
              | Inr (fac, i, scores', buffer') \<Rightarrow>
                  (case (case fac of
                           Some f \<Rightarrow> Inr (Some f)
                         | None \<Rightarrow>
                             (case qsort compare_syntax_score (take i scores') @ drop i scores' of
                                [] \<Rightarrow> Inl Scores_out_of_bounds
                              | s # rest \<Rightarrow> if score s \<ge> 0 then Inr (factory s) else Inr None)) of
                     Inl e \<Rightarrow> Inl e
                   | Inr fo \<Rightarrow>
                       (case factory_name fo of
                          Inl e \<Rightarrow> Inl e
                        | Inr nm \<Rightarrow> Inr (nm, buffer'))))))"

subsection \<open>Notions used in the statements\<close>

text \<open>
  Selection, as the code decides it for one candidate when a name and a URI are both
  supplied: the candidate passes the flags filter and the name is one of its names,
  or the URI is one of its URI strings, or the MIME type is one of its MIME types.
\<close>

definition request_matches ::
  "rasqal_query_results_format_factory \<Rightarrow> string \<Rightarrow> string \<Rightarrow> string option \<Rightarrow> int \<Rightarrow> bool" where
  "request_matches f n u mime rflags =
     ((rflags = 0 \<or> factory_flags f = rflags) \<and>
      (n \<in> (case names (desc f) of None \<Rightarrow> {} | Some ns \<Rightarrow> set ns) \<or>
       u \<in> (case uri_strings (desc f) of None \<Rightarrow> {} | Some us \<Rightarrow> set us) \<or>
       (case mime of
          None \<Rightarrow> False
        | Some m \<Rightarrow>
            m \<in> (case mime_types (desc f) of
                    None \<Rightarrow> {}
                  | Some tab \<Rightarrow> mime_type ` set (entries tab)))))"

text \<open>
  Suffix extraction as section 4.3, step 1 words it: the substring after the last
  dot, lower-cased when all of its characters are alphanumeric, and no suffix
  otherwise or when there is no dot.
\<close>

definition is_alphanumeric :: "char \<Rightarrow> bool" where
  "is_alphanumeric c = (isalpha c \<or> isdigit c)"

definition after_last_dot :: "string \<Rightarrow> string" where
  "after_last_dot ident = rev (takeWhile (\<lambda>c. c \<noteq> CHR ''.'') (rev ident))"

definition spec_suffix :: "string \<Rightarrow> string option" where
  "spec_suffix ident =
     (if CHR ''.'' \<notin> set ident then None
      else if list_all is_alphanumeric (after_last_dot ident)
           then Some (map tolower (after_last_dot ident))
           else None)"

text \<open>
  A buffer is at least as long as the length passed with it; \<open>cut_buffer\<close> is the
  buffer as a recogniser is shown it.
\<close>

definition buffer_ok :: "byte list option \<Rightarrow> nat \<Rightarrow> bool" where
  "buffer_ok buffer len = (case buffer of None \<Rightarrow> True | Some b \<Rightarrow> len \<le> length b)"

definition cut_buffer :: "byte list option \<Rightarrow> nat \<Rightarrow> byte list option" where
  "cut_buffer buffer len =
     (case buffer of
        None \<Rightarrow> None
      | Some b \<Rightarrow> if FIRSTN < len then Some (b[FIRSTN := 0]) else Some b)"

text \<open>
  The guess as step 2 of section 4.3 words it, with the bounded view of the buffer
  that section 9 recommends: nothing is written to a buffer, and every recogniser
  that is asked is shown the same view \<open>shown\<close>. A candidate ends the scan by a MIME
  score of 10 or more or by a URI match; the first such candidate is the choice. When
  there is none, every candidate is scored (its MIME score plus what its recogniser
  returns for \<open>shown\<close>, at most 10) and the top of the sorted scores is the choice if
  it is not negative.
\<close>

definition ends_scan ::
  "string option \<Rightarrow> string option \<Rightarrow> rasqal_query_results_format_factory \<Rightarrow> bool" where
  "ends_scan uri mime f = (guess_mime_score mime f \<ge> 10 \<or> uri_matches uri f)"

definition recorded_score ::
  "byte list option \<Rightarrow> nat \<Rightarrow> string option \<Rightarrow> string option \<Rightarrow> string option
     \<Rightarrow> rasqal_query_results_format_factory \<Rightarrow> syntax_score" where
  "recorded_score shown len identifier suffix mime f =
     (let sc = (case recognise_syntax f of
                  None \<Rightarrow> guess_mime_score mime f
                | Some rs \<Rightarrow> c_int (guess_mime_score mime f + rs shown len identifier suffix mime))
      in \<lparr>score = (if sc < 10 then sc else 10), factory = Some f\<rparr>)"

definition guess_bounded_view ::
  "bool \<Rightarrow> bool \<Rightarrow> rasqal_query_results_format_factory list \<Rightarrow> string option \<Rightarrow> string option
     \<Rightarrow> byte list option \<Rightarrow> nat \<Rightarrow> string option \<Rightarrow> error + string option" where
  "guess_bounded_view calloc_ok malloc_ok fs uri mime shown len identifier =
     (if \<not> calloc_ok then Inr None
      else
        (case guess_suffix malloc_ok identifier of
           None \<Rightarrow> Inr None
         | Some suffix \<Rightarrow>
             (case (case find (ends_scan uri mime) fs of
                      Some f \<Rightarrow> Inr (Some f)
                    | None \<Rightarrow>
                        (case qsort compare_syntax_score
                                (map (recorded_score shown len identifier suffix mime) fs) of
                           [] \<Rightarrow> Inl Scores_out_of_bounds
                         | s # rest \<Rightarrow> if score s \<ge> 0 then Inr (factory s) else Inr None)) of
                Inl e \<Rightarrow> Inl e
              | Inr fo \<Rightarrow> factory_name fo)))"

subsection \<open>Example registries\<close>

definition example_factory ::
  "string list \<Rightarrow> string list \<Rightarrow> (string \<times> nat) list \<Rightarrow> bool \<Rightarrow> bool \<Rightarrow> recognise_fn option
     \<Rightarrow> rasqal_query_results_format_factory" where
  "example_factory ns us ms r w rs =
     \<lparr>desc = \<lparr>names = Some ns, label = Some ''example'',
              mime_types = Some \<lparr>entries = map (\<lambda>(m, k). \<lparr>mime_type = m, q = k\<rparr>) ms,
                                 terminator_q = 0\<rparr>,
              uri_strings = Some us, flags = 0\<rparr>,
      get_rowsource = r, write_fn = w, recognise_syntax = rs\<rparr>"

definition factory_xml :: rasqal_query_results_format_factory where
  "factory_xml = example_factory [''xml''] [''http://www.w3.org/2005/sparql-results#'']
                   [(''application/sparql-results+xml'', 10)] True True None"

definition factory_json :: rasqal_query_results_format_factory where
  "factory_json = example_factory [''json''] [''http://www.w3.org/2001/sw/DataAccess/json-sparql/'']
                    [(''application/json'', 10)] False True None"

definition factory_csv :: rasqal_query_results_format_factory where
  "factory_csv = example_factory [''csv''] [] [(''text/csv'', 10)] True False None"

text \<open>A factory as calloc leaves it but for its names and label: it declares no MIME types.\<close>

definition factory_table :: rasqal_query_results_format_factory where
  "factory_table =
     calloc_factory\<lparr>desc := (desc calloc_factory)\<lparr>names := Some [''table''], label := Some ''Table''\<rparr>\<rparr>"

text \<open>A recogniser that is sure of every buffer it is shown.\<close>

definition recognise_always :: recognise_fn where
  "recognise_always buffer len identifier suffix mime = 100"

definition factory_html :: rasqal_query_results_format_factory where
  "factory_html = example_factory [''html''] [] [(''text/html'', 10)] False True (Some recognise_always)"

text \<open>A recogniser that scores 7 exactly when byte 1024 of the buffer it is shown is 0.\<close>

definition recognise_terminated :: recognise_fn where
  "recognise_terminated buffer len identifier suffix mime =
     (case buffer of
        None \<Rightarrow> 0
      | Some b \<Rightarrow> if 1024 < length b \<and> b ! 1024 = 0 then 7 else 0)"

definition factory_turtle :: rasqal_query_results_format_factory where
  "factory_turtle = example_factory [''turtle''] [] [] False True (Some recognise_terminated)"

definition long_buffer :: "byte list" where
  "long_buffer = replicate 2000 60"

definition world0 :: rasqal_world where
  "world0 = \<lparr>query_results_formats = [], heap = Map.empty\<rparr>"

text \<open>
  Three registration functions: one fails, one succeeds without filling anything in,
  one fills in a reader and writes 7 to the flags.
\<close>

definition register_fails :: register_fn where
  "register_fails f = (1, f\<lparr>get_rowsource := True\<rparr>)"

definition register_nothing :: register_fn where
  "register_nothing f = (0, f)"

definition register_csv :: register_fn where
  "register_csv f =
     (0, f\<lparr>desc := \<lparr>names = Some [''csv''], label = Some ''Comma Separated Values'',
                    mime_types = Some \<lparr>entries = [\<lparr>mime_type = ''text/csv'', q = 10\<rparr>],
                                       terminator_q = 0\<rparr>,
                    uri_strings = None, flags = 7\<rparr>,
          get_rowsource := True\<rparr>)"

section \<open>Properties\<close>

subsection \<open>The scans decide membership\<close>

lemma names_scan_iff: "names_scan n ns \<longleftrightarrow> n \<in> set ns"
  by (induction ns) auto

lemma uri_strings_scan_iff: "uri_strings_scan u us \<longleftrightarrow> u \<in> set us"
  by (induction us) auto

lemma mime_types_scan_iff: "mime_types_scan m ts \<longleftrightarrow> m \<in> mime_type ` set ts"
  by (induction ts) auto

lemma factory_flags_cases:
  "factory_flags f =
     (if get_rowsource f then (if write_fn f then 3 else 1) else (if write_fn f then 2 else 0))"
  by (simp add: factory_flags_def RASQAL_QUERY_RESULTS_FORMAT_FLAG_READER_def
      RASQAL_QUERY_RESULTS_FORMAT_FLAG_WRITER_def)

subsection \<open>Registration\<close>

lemma register_frame:
  assumes "rasqal_world_register_query_results_format_factory w (Some a) pf rf = (r, w')"
    and "b \<noteq> a"
  shows "heap w' b = heap w b"
  using assms
  by (auto simp: rasqal_world_register_query_results_format_factory_def Let_def
      rasqal_free_query_results_format_factory_def split: if_splits prod.splits)

text \<open>
  C1, as amended. The claim says that a failed registration releases the factory and
  leaves the registry as it was. The code pushes the factory onto the sequence before
  it calls the registration function (line 73), and when that function fails it
  returns with the factory still in the sequence, which owns it (lines 77 to 79). What
  holds: when the registration function fails, or the names are absent or empty, or
  the label is absent, registration returns \<^verbatim>\<open>NULL\<close>, the sequence as it was before
  the call is a prefix of the sequence after it, and no factory at another address is
  touched. When the registration function fails the factory is not released: it is
  the new last entry of the sequence, as the function left it. When validation fails
  the factory is released.
\<close>

theorem register_failure_keeps_earlier:
  assumes res: "rasqal_world_register_query_results_format_factory w (Some a) False rf = (r, w')"
    and fn: "rf calloc_factory = (rc, f1)"
    and fails: "rc \<noteq> 0 \<or> names (desc f1) = None \<or> names (desc f1) = Some [] \<or> label (desc f1) = None"
  shows "r = None \<and>
    take (length (query_results_formats w)) (query_results_formats w') = query_results_formats w \<and>
    (\<forall>b. b \<noteq> a \<longrightarrow> heap w' b = heap w b) \<and>
    (rc \<noteq> 0 \<longrightarrow> query_results_formats w' = query_results_formats w @ [a] \<and> heap w' a = Some f1) \<and>
    (rc = 0 \<longrightarrow> heap w' a = None)"
  using assms
  by (auto simp: rasqal_world_register_query_results_format_factory_def Let_def
      rasqal_free_query_results_format_factory_def split: if_splits)

text \<open>
  C1 as stated fails. Registering into the empty world with a registration function
  that fails returns \<^verbatim>\<open>NULL\<close> and leaves a sequence of length one whose entry is the
  partly populated factory. A registration function that succeeds without setting
  names or label also leaves a sequence of length one; its entry points at the freed
  factory.
\<close>

theorem register_failure_counterexample:
  "fst (rasqal_world_register_query_results_format_factory world0 (Some 0) False register_fails) = None \<and>
   query_results_formats
     (snd (rasqal_world_register_query_results_format_factory world0 (Some 0) False register_fails)) = [0] \<and>
   raptor_sequence_get_at
     (snd (rasqal_world_register_query_results_format_factory world0 (Some 0) False register_fails)) 0 =
     Some 0 \<and>
   heap (snd (rasqal_world_register_query_results_format_factory world0 (Some 0) False register_fails)) 0 =
     Some (calloc_factory\<lparr>get_rowsource := True\<rparr>) \<and>
   fst (rasqal_world_register_query_results_format_factory world0 (Some 0) False register_nothing) = None \<and>
   query_results_formats
     (snd (rasqal_world_register_query_results_format_factory world0 (Some 0) False register_nothing)) = [0] \<and>
   heap (snd (rasqal_world_register_query_results_format_factory world0 (Some 0) False register_nothing)) 0 =
     None \<and>
   query_results_formats world0 = []"
  by (simp add: rasqal_world_register_query_results_format_factory_def Let_def world0_def
      register_fails_def register_nothing_def calloc_factory_def
      rasqal_free_query_results_format_factory_def raptor_sequence_get_at_def)

theorem register_failure_keeps_earlier_witness:
  "fst (rasqal_world_register_query_results_format_factory world0 (Some 0) False register_fails) = None \<and>
   query_results_formats
     (snd (rasqal_world_register_query_results_format_factory world0 (Some 0) False register_fails)) =
     query_results_formats world0 @ [0] \<and>
   heap (snd (rasqal_world_register_query_results_format_factory world0 (Some 0) False register_fails)) 0 =
     Some (calloc_factory\<lparr>get_rowsource := True\<rparr>)"
  using register_failure_keeps_earlier [of world0 0 register_fails
      "fst (rasqal_world_register_query_results_format_factory world0 (Some 0) False register_fails)"
      "snd (rasqal_world_register_query_results_format_factory world0 (Some 0) False register_fails)"
      1 "calloc_factory\<lparr>get_rowsource := True\<rparr>"]
  by (simp add: register_fails_def world0_def)

text \<open>
  C5. After a successful registration the factory stored at the returned address has
  its flags set from its behaviours alone: READER is set exactly when
  \<^verbatim>\<open>get_rowsource\<close> is supplied and WRITER exactly when \<^verbatim>\<open>write\<close> is, whatever the
  registration function wrote to the flags. The behaviours are those the registration
  function left, and no later registration (at another address, as an allocator
  returns) changes the stored factory.
\<close>

theorem register_derives_flags:
  assumes "rasqal_world_register_query_results_format_factory w (Some a) pf rf = (Some p, w')"
  shows "p = a \<and> a \<in> set (query_results_formats w') \<and>
    (\<exists>f. heap w' a = Some f \<and>
         flags (desc f) = factory_flags f \<and>
         (flags (desc f) AND RASQAL_QUERY_RESULTS_FORMAT_FLAG_READER \<noteq> 0 \<longleftrightarrow> get_rowsource f) \<and>
         (flags (desc f) AND RASQAL_QUERY_RESULTS_FORMAT_FLAG_WRITER \<noteq> 0 \<longleftrightarrow> write_fn f) \<and>
         get_rowsource f = get_rowsource (snd (rf calloc_factory)) \<and>
         write_fn f = write_fn (snd (rf calloc_factory)) \<and>
         (\<forall>a2 pf2 rf2 r2 w2. a2 \<noteq> a \<longrightarrow>
            rasqal_world_register_query_results_format_factory w' (Some a2) pf2 rf2 = (r2, w2) \<longrightarrow>
            heap w2 a = Some f))"
proof -
  obtain rc f1 where fn: "rf calloc_factory = (rc, f1)" by (cases "rf calloc_factory")
  let ?f = "f1\<lparr>desc := (desc f1)\<lparr>flags := factory_flags f1\<rparr>\<rparr>"
  from assms fn have p: "p = a" and mem: "a \<in> set (query_results_formats w')"
    and h: "heap w' a = Some ?f"
    by (auto simp: rasqal_world_register_query_results_format_factory_def Let_def factory_flags_def
      rasqal_free_query_results_format_factory_def split: if_splits)
  have fl: "flags (desc ?f) = factory_flags ?f" by (simp add: factory_flags_def)
  have r: "(flags (desc ?f) AND RASQAL_QUERY_RESULTS_FORMAT_FLAG_READER \<noteq> 0) = get_rowsource ?f"
    by (simp add: factory_flags_cases RASQAL_QUERY_RESULTS_FORMAT_FLAG_READER_def)
  have wr: "(flags (desc ?f) AND RASQAL_QUERY_RESULTS_FORMAT_FLAG_WRITER \<noteq> 0) = write_fn ?f"
    by (simp add: factory_flags_cases RASQAL_QUERY_RESULTS_FORMAT_FLAG_WRITER_def)
  have later: "\<forall>a2 pf2 rf2 r2 w2. a2 \<noteq> a \<longrightarrow>
            rasqal_world_register_query_results_format_factory w' (Some a2) pf2 rf2 = (r2, w2) \<longrightarrow>
            heap w2 a = Some ?f"
    using register_frame h by metis
  show ?thesis using p mem h fl r wr later fn by simp
qed

theorem register_derives_flags_witness:
  "fst (rasqal_world_register_query_results_format_factory world0 (Some 0) False register_csv) = Some 0 \<and>
   map_option (\<lambda>f. flags (desc f))
     (heap (snd (rasqal_world_register_query_results_format_factory world0 (Some 0) False register_csv)) 0) =
     Some RASQAL_QUERY_RESULTS_FORMAT_FLAG_READER"
  using register_derives_flags [of world0 0 False register_csv 0
      "snd (rasqal_world_register_query_results_format_factory world0 (Some 0) False register_csv)"]
  by (simp add: rasqal_world_register_query_results_format_factory_def Let_def world0_def
      register_csv_def calloc_factory_def RASQAL_QUERY_RESULTS_FORMAT_FLAG_READER_def)

subsection \<open>Selection\<close>

lemma resolve_skips:
  "\<forall>p \<in> set pre. resolve_candidate p name uri mime rflags = Inr False \<Longrightarrow>
   rasqal_get_query_results_formatter_factory (pre @ rest) name uri mime rflags =
   rasqal_get_query_results_formatter_factory rest name uri mime rflags"
  by (induction pre) auto

lemma resolve_result_candidate:
  "rasqal_get_query_results_formatter_factory fs name uri mime rflags = Inr (Some f) \<Longrightarrow>
   f \<in> set fs \<and> resolve_candidate f name uri mime rflags = Inr True"
  by (induction fs) (auto split: sum.splits bool.splits)

lemma resolve_candidate_matches:
  assumes "names (desc f) \<noteq> None" and "mime \<noteq> None \<longrightarrow> mime_types (desc f) \<noteq> None"
  shows "resolve_candidate f (Some n) (Some u) mime rflags = Inr (request_matches f n u mime rflags)"
  using assms
  by (auto simp: resolve_candidate_def request_matches_def uri_matches_def names_scan_iff
      uri_strings_scan_iff mime_types_scan_iff split: option.splits bool.splits)

text \<open>
  C2, as amended. The claim gives the name absolute priority over the URI across all
  candidates. The code makes one pass in registration order and takes the first
  candidate that matches in any way. What holds: in a registry whose factories all
  declare names (and MIME types, when a MIME type is supplied), a request with a name
  and a URI returns the first factory in registration order that passes the flags
  filter and matches the name in its names, the URI in its URI strings or the MIME
  type in its MIME types; the name comes before the URI only within one candidate.
\<close>

theorem resolve_first_match:
  assumes "\<forall>f \<in> set fs. names (desc f) \<noteq> None \<and> (mime \<noteq> None \<longrightarrow> mime_types (desc f) \<noteq> None)"
  shows "rasqal_get_query_results_formatter_factory fs (Some n) (Some u) mime rflags =
         Inr (find (\<lambda>f. request_matches f n u mime rflags) fs)"
  using assms
proof (induction fs)
  case Nil
  show ?case by simp
next
  case (Cons f fs)
  then have "resolve_candidate f (Some n) (Some u) mime rflags = Inr (request_matches f n u mime rflags)"
    by (intro resolve_candidate_matches) simp_all
  with Cons show ?case by simp
qed

text \<open>
  C2 as stated fails: with the XML factory registered before the JSON factory, a
  request for the name \<open>json\<close> and the URI of the XML factory returns the XML
  factory, whose names do not contain \<open>json\<close>.
\<close>

theorem resolve_uri_before_name_counterexample:
  "rasqal_get_query_results_formatter_factory [factory_xml, factory_json] (Some ''json'')
     (Some ''http://www.w3.org/2005/sparql-results#'') None 0 = Inr (Some factory_xml) \<and>
   names (desc factory_xml) = Some [''xml''] \<and> names (desc factory_json) = Some [''json'']"
  by (simp add: factory_json_def factory_xml_def example_factory_def resolve_candidate_def
      uri_matches_def)

theorem resolve_first_match_witness:
  "rasqal_get_query_results_formatter_factory [factory_xml, factory_json] (Some ''json'')
     (Some ''http://example.org/none'') None 0 = Inr (Some factory_json)"
  using resolve_first_match [of "[factory_xml, factory_json]" None "''json''"
      "''http://example.org/none''" 0]
  by (simp add: factory_json_def factory_xml_def example_factory_def request_matches_def)

text \<open>
  C6. With non-zero required flags, a candidate whose flags differ from them is
  passed over, and a factory that is returned has exactly the required flags; a
  request for READER alone never returns a factory that supplies both
  \<^verbatim>\<open>get_rowsource\<close> and \<^verbatim>\<open>write\<close>.
\<close>

theorem resolve_flags_strict:
  assumes "rflags \<noteq> 0"
    and "rasqal_get_query_results_formatter_factory fs name uri mime rflags = Inr (Some f)"
  shows "f \<in> set fs \<and> factory_flags f = rflags \<and>
    (rflags = RASQAL_QUERY_RESULTS_FORMAT_FLAG_READER \<longrightarrow> \<not> (get_rowsource f \<and> write_fn f)) \<and>
    (\<forall>c. factory_flags c \<noteq> rflags \<longrightarrow> resolve_candidate c name uri mime rflags = Inr False)"
proof -
  from resolve_result_candidate [OF assms(2)]
  have mem: "f \<in> set fs" and sel: "resolve_candidate f name uri mime rflags = Inr True"
    by simp_all
  from sel assms(1) have eq: "factory_flags f = rflags"
    by (auto simp: resolve_candidate_def split: if_splits)
  have "rflags = RASQAL_QUERY_RESULTS_FORMAT_FLAG_READER \<longrightarrow> \<not> (get_rowsource f \<and> write_fn f)"
    using eq by (auto simp: factory_flags_cases RASQAL_QUERY_RESULTS_FORMAT_FLAG_READER_def)
  moreover have "\<forall>c. factory_flags c \<noteq> rflags \<longrightarrow> resolve_candidate c name uri mime rflags = Inr False"
    using assms(1) by (simp add: resolve_candidate_def)
  ultimately show ?thesis using mem eq by blast
qed

theorem resolve_flags_strict_witness:
  "rasqal_get_query_results_formatter_factory [factory_xml, factory_csv] None None None
     RASQAL_QUERY_RESULTS_FORMAT_FLAG_READER = Inr (Some factory_csv) \<and>
   factory_flags factory_xml = 3 \<and> factory_flags factory_csv = RASQAL_QUERY_RESULTS_FORMAT_FLAG_READER"
  using resolve_flags_strict [of RASQAL_QUERY_RESULTS_FORMAT_FLAG_READER "[factory_xml, factory_csv]"
      None None None factory_csv]
  by (simp add: factory_xml_def factory_csv_def example_factory_def resolve_candidate_def
      factory_flags_cases RASQAL_QUERY_RESULTS_FORMAT_FLAG_READER_def)

text \<open>
  C9. The MIME loop of selection reads \<^verbatim>\<open>desc.mime_types\<close> without a test of the
  pointer, where the URI loop tests \<^verbatim>\<open>desc.uri_strings\<close>. When a name or a URI is
  supplied with a MIME type, and the scan passes over the earlier candidates and
  reaches a candidate that passes the flags filter, declares no MIME types and matches
  neither the name nor the URI (its URI strings may be absent), selection ends in the
  read of the absent array.
\<close>

theorem resolve_null_mime_types:
  assumes reached: "\<forall>p \<in> set pre. resolve_candidate p name uri (Some m) rflags = Inr False"
    and supplied: "name \<noteq> None \<or> uri \<noteq> None"
    and flags_pass: "rflags = 0 \<or> factory_flags f = rflags"
    and no_table: "mime_types (desc f) = None"
    and no_name: "\<forall>n. name = Some n \<longrightarrow> (\<exists>ns. names (desc f) = Some ns \<and> n \<notin> set ns)"
    and no_uri: "\<forall>u us. uri = Some u \<longrightarrow> uri_strings (desc f) = Some us \<longrightarrow> u \<notin> set us"
  shows "rasqal_get_query_results_formatter_factory (pre @ f # post) name uri (Some m) rflags =
         Inl Null_mime_types"
proof -
  have nu: "\<not> uri_matches uri f"
    using no_uri by (auto simp: uri_matches_def uri_strings_scan_iff split: option.splits)
  have "resolve_candidate f name uri (Some m) rflags = Inl Null_mime_types"
    using supplied flags_pass no_table no_name nu
    by (auto simp: resolve_candidate_def names_scan_iff split: option.splits)
  then show ?thesis
    using resolve_skips [OF reached] by simp
qed

theorem resolve_null_mime_types_witness:
  "rasqal_get_query_results_formatter_factory [factory_xml, factory_table, factory_json]
     (Some ''json'') None (Some ''application/json'') 0 = Inl Null_mime_types"
  using resolve_null_mime_types [of "[factory_xml]" "Some ''json''" None "''application/json''" 0
      factory_table "[factory_json]"]
  by (simp add: factory_json_def factory_xml_def example_factory_def factory_table_def
      calloc_factory_def resolve_candidate_def uri_matches_def)

subsection \<open>Suffix extraction\<close>

lemma strrchr_last:
  "strrchr s c = (if c \<in> set s then Some (c # rev (takeWhile (\<lambda>x. x \<noteq> c) (rev s))) else None)"
proof (induction s)
  case Nil
  show ?case by simp
next
  case (Cons x xs)
  show ?case
  proof (cases "c \<in> set xs")
    case True
    then have "takeWhile (\<lambda>x. x \<noteq> c) (rev xs @ [x]) = takeWhile (\<lambda>x. x \<noteq> c) (rev xs)"
      by (intro takeWhile_append1 [of c]) simp_all
    with True Cons show ?thesis by simp
  next
    case False
    then have "takeWhile (\<lambda>x. x \<noteq> c) (rev xs @ [c]) = rev xs"
      by (subst takeWhile_append2) auto
    with False Cons show ?thesis by auto
  qed
qed

lemma suffix_copy_eq:
  "suffix_copy s acc =
     (if list_all is_alphanumeric s then Some (acc @ map tolower s) else None)"
  by (induction s arbitrary: acc) (auto simp: is_alphanumeric_def tolower_def)

lemma guess_suffix_malloc_ok: "\<exists>suffix. guess_suffix True identifier = Some suffix"
  by (simp add: guess_suffix_def split: option.splits)

text \<open>
  C7. For every identifier, the suffix the code computes (its allocation succeeding)
  is the one the specification words: none when the identifier has no dot; otherwise
  the substring after the last dot, lower-cased, when all of its characters are
  letters or digits, and none when one of them is not.
\<close>

theorem guess_suffix_spec:
  "guess_suffix True (Some ident) = Some (spec_suffix ident)"
  by (simp add: guess_suffix_def spec_suffix_def after_last_dot_def strrchr_last suffix_copy_eq)

theorem guess_suffix_examples:
  "guess_suffix True (Some ''report.CSV'') = Some (Some ''csv'') \<and>
   guess_suffix True (Some ''no-dot-name'') = Some None \<and>
   guess_suffix True (Some ''file.na-me'') = Some None"
  using guess_suffix_spec [of "''report.CSV''"] guess_suffix_spec [of "''no-dot-name''"]
    guess_suffix_spec [of "''file.na-me''"]
  by (simp add: spec_suffix_def after_last_dot_def is_alphanumeric_def isalpha_def isdigit_def
      isupper_def tolower_def char_of_eq_iff)

subsection \<open>Guessing\<close>

lemma recognise_call_restores:
  assumes "buffer_ok buffer len"
  shows "recognise_call rs buffer len identifier suffix mime =
         Inr (rs (cut_buffer buffer len) len identifier suffix mime, buffer)"
  using assms
  by (auto simp: recognise_call_def buffer_ok_def cut_buffer_def Let_def split: option.splits)

lemma recognise_call_error:
  "recognise_call rs buffer len identifier suffix mime = Inl e \<Longrightarrow> e = Buffer_out_of_bounds"
  by (auto simp: recognise_call_def Let_def split: option.splits if_splits)

lemma type_q_scan_find:
  "find (\<lambda>t. mime_type t = m) ts = Some t \<Longrightarrow> type_q_scan m ts tq = q t"
  by (induction ts) (auto split: if_splits)

lemma factory_name_cases:
  "(\<exists>nm. factory_name fo = Inr nm) \<or> factory_name fo = Inl Null_names"
  by (simp add: factory_name_def split: option.splits list.splits)

lemma length_qsort_insert: "length (qsort_insert compar x xs) = Suc (length xs)"
  by (induction xs) simp_all

lemma length_qsort: "length (qsort compar xs) = length xs"
  by (induction xs) (simp_all add: qsort_def length_qsort_insert)

lemma top_slot_empty:
  "(qsort compar (take i xs) @ drop i xs = []) = (xs = [])"
proof -
  have "length (qsort compar (take i xs) @ drop i xs) = length xs"
    by (simp add: length_qsort)
  then show ?thesis by (metis length_0_conv)
qed

lemma long_buffer_length: "length long_buffer = 2000"
  by (simp add: long_buffer_def)

text \<open>Candidates that neither short-circuit nor fail are scored and passed.\<close>

lemma guess_scan_passes:
  assumes "\<forall>p \<in> set pre. guess_mime_score mime p < 10 \<and> \<not> uri_matches uri p"
    and "buffer_ok buffer len"
    and "i + length pre \<le> length scores"
  shows "\<exists>scores'. length scores' = length scores \<and>
           guess_scan (pre @ rest) i uri mime len identifier suffix scores buffer =
           guess_scan rest (i + length pre) uri mime len identifier suffix scores' buffer"
  using assms
proof (induction pre arbitrary: i scores)
  case Nil
  show ?case by (rule exI [of _ scores]) simp
next
  case (Cons p pre)
  let ?go = "\<lambda>sc. guess_scan (pre @ rest) (Suc i) uri mime len identifier suffix
                (scores[i := \<lparr>score = (if sc < 10 then sc else 10), factory = Some p\<rparr>]) buffer"
  have step: "\<exists>sc. guess_scan ((p # pre) @ rest) i uri mime len identifier suffix scores buffer = ?go sc"
    using Cons.prems by (cases "recognise_syntax p") (auto simp: Let_def recognise_call_restores)
  then obtain sc where
    eq: "guess_scan ((p # pre) @ rest) i uri mime len identifier suffix scores buffer = ?go sc" ..
  have "\<exists>scores'.
          length scores' = length (scores[i := \<lparr>score = (if sc < 10 then sc else 10), factory = Some p\<rparr>]) \<and>
          ?go sc = guess_scan rest (Suc i + length pre) uri mime len identifier suffix scores' buffer"
    using Cons.prems by (intro Cons.IH) simp_all
  with eq show ?case by auto
qed

text \<open>The scan never writes outside the scores array and keeps its length.\<close>

lemma guess_scan_shape:
  assumes "i + length fs \<le> length scores"
  shows "guess_scan fs i uri mime len identifier suffix scores buffer \<noteq> Inl Scores_out_of_bounds \<and>
         (\<forall>fac i' scores' buffer'.
            guess_scan fs i uri mime len identifier suffix scores buffer = Inr (fac, i', scores', buffer')
            \<longrightarrow> length scores' = length scores)"
  using assms
proof (induction fs arbitrary: i scores buffer)
  case Nil
  show ?case by simp
next
  case (Cons f fs)
  have rec: "\<And>v b. guess_scan fs (Suc i) uri mime len identifier suffix (scores[i := v]) b
                 \<noteq> Inl Scores_out_of_bounds \<and>
         (\<forall>fac i' scores' buffer'.
            guess_scan fs (Suc i) uri mime len identifier suffix (scores[i := v]) b =
              Inr (fac, i', scores', buffer')
            \<longrightarrow> length scores' = length scores)"
  proof -
    fix v b
    have "Suc i + length fs \<le> length (scores[i := v])" using Cons.prems by simp
    from Cons.IH [OF this, of b]
    show "guess_scan fs (Suc i) uri mime len identifier suffix (scores[i := v]) b
                 \<noteq> Inl Scores_out_of_bounds \<and>
         (\<forall>fac i' scores' buffer'.
            guess_scan fs (Suc i) uri mime len identifier suffix (scores[i := v]) b =
              Inr (fac, i', scores', buffer')
            \<longrightarrow> length scores' = length scores)"
      by simp
  qed
  have lt: "i < length scores" using Cons.prems by simp
  show ?case
  proof (cases "recognise_syntax f")
    case None
    with lt rec show ?thesis
      by (simp add: Let_def)
  next
    case (Some rs)
    show ?thesis
    proof (cases "recognise_call rs buffer len identifier suffix mime")
      case (Inl e)
      with Some recognise_call_error [OF Inl] show ?thesis by (simp add: Let_def)
    next
      case (Inr rb)
      obtain r b where rb: "rb = (r, b)" by (cases rb)
      with Some Inr lt rec show ?thesis
        by (simp add: Let_def)
    qed
  qed
qed

text \<open>With a buffer as long as its length says, the scan returns with the buffer as it was.\<close>

lemma guess_scan_total:
  assumes "buffer_ok buffer len" and "i + length fs \<le> length scores"
  shows "\<exists>fac i' scores'. length scores' = length scores \<and>
           guess_scan fs i uri mime len identifier suffix scores buffer = Inr (fac, i', scores', buffer)"
  using assms
proof (induction fs arbitrary: i scores)
  case Nil
  show ?case by simp
next
  case (Cons f fs)
  have rec: "\<And>v. \<exists>fac i' scores'. length scores' = length scores \<and>
           guess_scan fs (Suc i) uri mime len identifier suffix (scores[i := v]) buffer =
           Inr (fac, i', scores', buffer)"
  proof -
    fix v
    have "Suc i + length fs \<le> length (scores[i := v])" using Cons.prems by simp
    from Cons.IH [OF Cons.prems(1) this]
    show "\<exists>fac i' scores'. length scores' = length scores \<and>
           guess_scan fs (Suc i) uri mime len identifier suffix (scores[i := v]) buffer =
           Inr (fac, i', scores', buffer)"
      by simp
  qed
  have lt: "i < length scores" using Cons.prems by simp
  show ?case
  proof (cases "recognise_syntax f")
    case None
    with lt rec show ?thesis
      by (simp add: Let_def)
  next
    case (Some rs)
    with lt rec show ?thesis
      by (simp add: Let_def recognise_call_restores [OF Cons.prems(1)])
  qed
qed

text \<open>
  C3. The claim says that the score of a candidate stays -1 unless the MIME type
  matches one of its entries, so that a MIME type which matches nothing yields no
  guess. In the code the pointer tested in line 616 is never \<^verbatim>\<open>NULL\<close>, and line 617
  also runs when no entry matched, reading the \<^verbatim>\<open>q\<close> of the terminating entry. With
  the JSON factory alone in the registry (no recogniser, terminating entry with
  \<^verbatim>\<open>q\<close> 0) and the MIME type \<open>text/plain\<close>, the recorded score is 0 and the guess is
  \<open>json\<close>.
\<close>

theorem guess_unmatched_mime_selected:
  "guess_scan [factory_json] 0 None (Some ''text/plain'') 0 None None
     [\<lparr>score = 0, factory = None\<rparr>] None =
     Inr (None, 1, [\<lparr>score = 0, factory = Some factory_json\<rparr>], None) \<and>
   rasqal_world_guess_query_results_format_name True True [factory_json] None
     (Some ''text/plain'') None 0 None = Inr (Some ''json'', None)"
  by (simp add: rasqal_world_guess_query_results_format_name_def factory_json_def example_factory_def
      guess_suffix_def guess_mime_score_def uri_matches_def qsort_def factory_name_def
      compare_syntax_score_def)

text \<open>
  C4. When no earlier candidate ends the scan (none has a MIME score of 10 or more,
  none matches the URI) and the MIME type supplied matches an entry of the factory
  \<open>x\<close> whose quality is at least 10, the guess is the first name of \<open>x\<close>: whatever
  the recognisers of the earlier candidates return, and whatever factories are
  registered after \<open>x\<close>.
\<close>

theorem guess_mime_short_circuit:
  assumes earlier: "\<forall>p \<in> set pre. guess_mime_score (Some m) p < 10 \<and> \<not> uri_matches uri p"
    and table: "mime_types (desc x) = Some tab"
    and entry: "find (\<lambda>t. mime_type t = m) (entries tab) = Some t"
    and quality: "10 \<le> q t"
    and name: "names (desc x) = Some (n # ns)"
    and buf: "\<forall>b. buffer = Some b \<longrightarrow> len \<le> length b"
  shows "rasqal_world_guess_query_results_format_name True True (pre @ x # post) uri (Some m)
           buffer len identifier = Inr (Some n, buffer)"
proof -
  have bok: "buffer_ok buffer len"
    using buf by (simp add: buffer_ok_def split: option.splits)
  obtain suffix where suf: "guess_suffix True identifier = Some suffix"
    using guess_suffix_malloc_ok by blast
  let ?scores = "replicate (length (pre @ x # post)) \<lparr>score = 0, factory = None\<rparr>"
  have "0 + length pre \<le> length ?scores" by simp
  from guess_scan_passes [OF earlier bok this]
  obtain scores' where
    sc: "guess_scan (pre @ x # post) 0 uri (Some m) len identifier suffix ?scores buffer =
         guess_scan (x # post) (0 + length pre) uri (Some m) len identifier suffix scores' buffer"
    by blast
  have "guess_mime_score (Some m) x = int (q t)"
    using table entry by (simp add: guess_mime_score_def type_q_scan_find)
  with quality
  have "guess_scan (x # post) (0 + length pre) uri (Some m) len identifier suffix scores' buffer =
        Inr (Some x, 0 + length pre, scores', buffer)"
    by simp
  with sc suf name show ?thesis
    by (simp add: rasqal_world_guess_query_results_format_name_def factory_name_def)
qed

theorem guess_mime_short_circuit_witness:
  "rasqal_world_guess_query_results_format_name True True [factory_html, factory_json, factory_xml] None
     (Some ''application/json'') None 0 None = Inr (Some ''json'', None)"
  using guess_mime_short_circuit [of "[factory_html]" "''application/json''" None factory_json
      "the (mime_types (desc factory_json))" "\<lparr>mime_type = ''application/json'', q = 10\<rparr>"
      "''json''" "[]" None 0 "[factory_xml]" None]
  by (simp add: factory_json_def factory_html_def example_factory_def guess_mime_score_def
      uri_matches_def)

text \<open>
  What the scan leaves behind, with a buffer as long as its length says: the first
  candidate that ends the scan, the index it stopped at, the scores of the candidates
  before it written to their slots, each with its recogniser shown the cut buffer,
  and the buffer as it was.
\<close>

lemma guess_scan_records:
  assumes "buffer_ok buffer len" and "i + length fs \<le> length scores"
  shows "guess_scan fs i uri mime len identifier suffix scores buffer =
         Inr (find (ends_scan uri mime) fs,
              i + length (takeWhile (\<lambda>f. \<not> ends_scan uri mime f) fs),
              take i scores @
                map (recorded_score (cut_buffer buffer len) len identifier suffix mime)
                  (takeWhile (\<lambda>f. \<not> ends_scan uri mime f) fs) @
                drop (i + length (takeWhile (\<lambda>f. \<not> ends_scan uri mime f) fs)) scores,
              buffer)"
  using assms
proof (induction fs arbitrary: i scores)
  case Nil
  show ?case by simp
next
  case (Cons f fs)
  show ?case
  proof (cases "ends_scan uri mime f")
    case True
    then show ?thesis by (auto simp: ends_scan_def Let_def)
  next
    case False
    let ?v = "recorded_score (cut_buffer buffer len) len identifier suffix mime f"
    let ?pre = "takeWhile (\<lambda>f. \<not> ends_scan uri mime f) fs"
    have lt: "i < length scores" using Cons.prems by simp
    have step: "guess_scan (f # fs) i uri mime len identifier suffix scores buffer =
                guess_scan fs (Suc i) uri mime len identifier suffix (scores[i := ?v]) buffer"
      using False lt
      by (cases "recognise_syntax f")
        (simp_all add: ends_scan_def recorded_score_def Let_def
          recognise_call_restores [OF Cons.prems(1)])
    have "Suc i + length fs \<le> length (scores[i := ?v])" using Cons.prems by simp
    from Cons.IH [OF Cons.prems(1) this]
    have ih: "guess_scan fs (Suc i) uri mime len identifier suffix (scores[i := ?v]) buffer =
              Inr (find (ends_scan uri mime) fs, Suc i + length ?pre,
                   take (Suc i) (scores[i := ?v]) @
                     map (recorded_score (cut_buffer buffer len) len identifier suffix mime) ?pre @
                     drop (Suc i + length ?pre) (scores[i := ?v]),
                   buffer)" .
    have tk: "take (Suc i) (scores[i := ?v]) = take i scores @ [?v]"
      using lt by (simp add: take_Suc_conv_app_nth)
    have dr: "drop (Suc i + length ?pre) (scores[i := ?v]) = drop (Suc i + length ?pre) scores"
      by (rule drop_update_cancel) simp
    show ?thesis
      unfolding step ih tk dr using False by simp
  qed
qed

text \<open>
  C8. For a buffer of more than 1024 bytes (and at least as long as its length says),
  a recogniser is called with byte 1024 of the buffer set to 0 and the call leaves the
  buffer as it was before. The guess is the guess in which every recogniser that is
  asked is shown the buffer with byte 1024 set to 0, and it returns the caller's
  buffer as it was passed in; so it either returns with that buffer, or ends in the
  read of absent names or, in an empty registry, of the empty scores array.
\<close>

theorem guess_restores_buffer:
  assumes long: "1024 < len" and size: "len \<le> length b"
  shows "recognise_call rs (Some b) len identifier suffix mime =
           Inr (rs (Some (b[1024 := 0])) len identifier suffix mime, Some b) \<and>
         rasqal_world_guess_query_results_format_name calloc_ok malloc_ok fs uri mime (Some b) len
             identifier =
           map_sum id (\<lambda>nm. (nm, Some b))
             (guess_bounded_view calloc_ok malloc_ok fs uri mime (Some (b[1024 := 0])) len identifier) \<and>
         ((\<exists>nm. rasqal_world_guess_query_results_format_name calloc_ok malloc_ok fs uri mime (Some b) len
                  identifier = Inr (nm, Some b)) \<or>
          rasqal_world_guess_query_results_format_name calloc_ok malloc_ok fs uri mime (Some b) len
                  identifier = Inl Null_names \<or>
          fs = [] \<and> rasqal_world_guess_query_results_format_name calloc_ok malloc_ok fs uri mime (Some b) len
                  identifier = Inl Scores_out_of_bounds)"
proof (intro conjI)
  have bok: "buffer_ok (Some b) len" using size by (simp add: buffer_ok_def)
  have cut: "cut_buffer (Some b) len = Some (b[1024 := 0])"
    using long by (simp add: cut_buffer_def FIRSTN_def)
  show "recognise_call rs (Some b) len identifier suffix mime =
           Inr (rs (Some (b[1024 := 0])) len identifier suffix mime, Some b)"
    by (simp add: recognise_call_restores [OF bok] cut)
  let ?g = "rasqal_world_guess_query_results_format_name calloc_ok malloc_ok fs uri mime (Some b) len identifier"
  let ?v = "guess_bounded_view calloc_ok malloc_ok fs uri mime (Some (b[1024 := 0])) len identifier"
  show view: "?g = map_sum id (\<lambda>nm. (nm, Some b)) ?v"
  proof (cases "calloc_ok \<and> guess_suffix malloc_ok identifier \<noteq> None")
    case False
    then show ?thesis
      by (auto simp: rasqal_world_guess_query_results_format_name_def guess_bounded_view_def)
  next
    case True
    then obtain suffix where suf: "guess_suffix malloc_ok identifier = Some suffix" by auto
    let ?scores = "replicate (length fs) \<lparr>score = 0, factory = None\<rparr>"
    let ?pre = "takeWhile (\<lambda>f. \<not> ends_scan uri mime f) fs"
    let ?rec = "recorded_score (Some (b[1024 := 0])) len identifier suffix mime"
    have "0 + length fs \<le> length ?scores" by simp
    from guess_scan_records [OF bok this, of uri mime "identifier" suffix]
    have scan: "guess_scan fs 0 uri mime len identifier suffix ?scores (Some b) =
                Inr (find (ends_scan uri mime) fs, length ?pre,
                     map ?rec ?pre @ drop (length ?pre) ?scores, Some b)"
      by (simp add: cut)
    show ?thesis
    proof (cases "find (ends_scan uri mime) fs")
      case (Some f)
      with True suf scan show ?thesis
        by (simp add: rasqal_world_guess_query_results_format_name_def guess_bounded_view_def
            split: sum.splits)
    next
      case None
      then have "\<forall>f \<in> set fs. \<not> ends_scan uri mime f"
        by (simp add: find_None_iff)
      then have pre: "?pre = fs" by simp
      have slots: "take (length fs) (map ?rec fs) @ drop (length fs) (map ?rec fs) = map ?rec fs"
        by simp
      from scan pre
      have "guess_scan fs 0 uri mime len identifier suffix ?scores (Some b) =
            Inr (None, length fs, map ?rec fs, Some b)"
        using None by simp
      with True suf None show ?thesis
        by (simp add: rasqal_world_guess_query_results_format_name_def guess_bounded_view_def
            split: sum.splits list.splits)
    qed
  qed
  show "(\<exists>nm. ?g = Inr (nm, Some b)) \<or> ?g = Inl Null_names \<or> fs = [] \<and> ?g = Inl Scores_out_of_bounds"
  proof (cases "calloc_ok \<and> guess_suffix malloc_ok identifier \<noteq> None")
    case False
    then show ?thesis
      by (auto simp: rasqal_world_guess_query_results_format_name_def)
  next
    case True
    then obtain suffix where suf: "guess_suffix malloc_ok identifier = Some suffix" by auto
    let ?scores = "replicate (length fs) \<lparr>score = 0, factory = None\<rparr>"
    have "0 + length fs \<le> length ?scores" by simp
    from guess_scan_total [OF bok this]
    obtain fac i' scores' where len': "length scores' = length ?scores"
      and scan: "guess_scan fs 0 uri mime len identifier suffix ?scores (Some b) =
                 Inr (fac, i', scores', Some b)"
      by blast
    show ?thesis
    proof (cases fac)
      case (Some f)
      with True suf scan factory_name_cases [of "Some f"] show ?thesis
        by (auto simp: rasqal_world_guess_query_results_format_name_def)
    next
      case None
      show ?thesis
      proof (cases "qsort compare_syntax_score (take i' scores') @ drop i' scores'")
        case Nil
        then have "scores' = []" by (simp only: top_slot_empty)
        with len' have "fs = []" by simp
        with True suf scan None Nil show ?thesis
          by (simp add: rasqal_world_guess_query_results_format_name_def)
      next
        case (Cons s rest)
        with True suf scan None factory_name_cases [of "factory s"] factory_name_cases [of None]
        show ?thesis
          by (auto simp: rasqal_world_guess_query_results_format_name_def)
      qed
    qed
  qed
qed

text \<open>
  The registry of the witness holds a factory without a recogniser before the one
  whose recogniser looks at byte 1024: the second call of the scan is the one that
  must show the cut buffer.
\<close>

theorem guess_restores_buffer_witness:
  "recognise_call recognise_terminated (Some long_buffer) 2000 None None None = Inr (7, Some long_buffer) \<and>
   long_buffer ! 1024 = 60 \<and>
   guess_bounded_view True True [factory_table, factory_turtle] None None
     (Some (long_buffer[1024 := 0])) 2000 None = Inr (Some ''turtle'') \<and>
   rasqal_world_guess_query_results_format_name True True [factory_table, factory_turtle] None None
     (Some long_buffer) 2000 None = Inr (Some ''turtle'', Some long_buffer)"
  using guess_restores_buffer [of 2000 long_buffer recognise_terminated None None None True True
      "[factory_table, factory_turtle]" None]
  by (simp add: guess_bounded_view_def recorded_score_def ends_scan_def factory_turtle_def
      factory_table_def calloc_factory_def example_factory_def
      guess_suffix_def guess_mime_score_def uri_matches_def qsort_def factory_name_def
      compare_syntax_score_def c_int_def recognise_terminated_def long_buffer_length
      long_buffer_def)

text \<open>
  C10. The scores array has one slot per registered factory, and when the scan ends
  without a short circuit, slot 0 is read. With both allocations succeeding, the guess
  ends in the read outside the scores array exactly when the registry is empty.
\<close>

theorem guess_empty_registry:
  "(rasqal_world_guess_query_results_format_name True True fs uri mime buffer len identifier =
      Inl Scores_out_of_bounds) = (fs = [])"
proof (cases fs)
  case Nil
  obtain suffix where suf: "guess_suffix True identifier = Some suffix"
    using guess_suffix_malloc_ok by blast
  with Nil show ?thesis
    by (simp add: rasqal_world_guess_query_results_format_name_def qsort_def)
next
  case (Cons f fs')
  obtain suffix where suf: "guess_suffix True identifier = Some suffix"
    using guess_suffix_malloc_ok by blast
  let ?scores = "replicate (length fs) \<lparr>score = 0, factory = None\<rparr>"
  let ?g = "rasqal_world_guess_query_results_format_name True True fs uri mime buffer len identifier"
  have le: "0 + length fs \<le> length ?scores" by simp
  have shape: "guess_scan fs 0 uri mime len identifier suffix ?scores buffer \<noteq> Inl Scores_out_of_bounds"
    and shape_len: "\<And>fac i' scores' buffer'.
      guess_scan fs 0 uri mime len identifier suffix ?scores buffer = Inr (fac, i', scores', buffer')
      \<Longrightarrow> length scores' = length fs"
    using guess_scan_shape [OF le, of uri mime len "identifier" suffix buffer] by auto
  have "?g \<noteq> Inl Scores_out_of_bounds"
  proof (cases "guess_scan fs 0 uri mime len identifier suffix ?scores buffer")
    case (Inl e)
    with shape have "e \<noteq> Scores_out_of_bounds" by auto
    with Inl suf show ?thesis
      by (simp add: rasqal_world_guess_query_results_format_name_def)
  next
    case (Inr res)
    obtain fac i' scores' b' where res: "res = (fac, i', scores', b')" by (cases res)
    with Inr shape_len have len': "length scores' = length fs" by simp
    show ?thesis
    proof (cases fac)
      case (Some f)
      with suf Inr res factory_name_cases [of "Some f"] show ?thesis
        by (auto simp: rasqal_world_guess_query_results_format_name_def)
    next
      case None
      show ?thesis
      proof (cases "qsort compare_syntax_score (take i' scores') @ drop i' scores'")
        case Nil
        then have "scores' = []" by (simp only: top_slot_empty)
        with len' \<open>fs = f # fs'\<close> show ?thesis by simp
      next
        case (Cons s rest)
        with suf Inr res None factory_name_cases [of "factory s"] factory_name_cases [of None]
        show ?thesis
          by (auto simp: rasqal_world_guess_query_results_format_name_def)
      qed
    qed
  qed
  with Cons show ?thesis by simp
qed

theorem guess_empty_registry_witness:
  "rasqal_world_guess_query_results_format_name True True [] None (Some ''text/csv'') None 0
     (Some ''results.csv'') = Inl Scores_out_of_bounds"
  using guess_empty_registry [of "[]" None "Some ''text/csv''" None 0 "Some ''results.csv''"]
  by simp

end
